theory Spec2Isabelle
  imports Main
begin

section \<open>Account validity handler (synapse/handlers/account_validity.py)\<close>

text \<open>
  The handler is written against collaborators it receives from the homeserver object
  \<open>hs\<close>: the datastore, the mail transport, the clock, the configuration, and a few
  library functions it imports. The embedding keeps that shape: the collaborators are the
  fields of a record, the handler's methods are functions over any such record, and the
  state of the outside world (database, mail transport, random source) is a type
  parameter \<open>'w\<close> that every effectful call takes and returns.
\<close>

subsection \<open>Exceptions and suspended calls\<close>

text \<open>
  The source distinguishes \<open>StoreError(code, msg)\<close> from every other exception:
  \<open>except StoreError\<close> catches the first only, \<open>except Exception\<close> catches both.
\<close>

datatype exn = StoreError int string | OtherException string

text \<open>
  A call that the source runs under \<open>yield\<close> takes the world, and gives the value that
  the \<open>yield\<close> expression has, or the exception raised at it, together with the world
  it left. Under \<open>yield\<close> it makes no difference whether the callee returned the value
  itself or a Deferred that holds it.
\<close>

type_synonym ('a, 'w) yielded = "'w \<Rightarrow> (exn + 'a) \<times> 'w"

text \<open>
  It does make a difference for a call that is not under \<open>yield\<close>: what the caller
  then holds is the object the callee returned, which is the value itself or a Deferred
  that holds a result or a failure.
\<close>

datatype 'a returned = Value 'a | Deferred "exn + 'a"

definition returnValue :: "'a \<Rightarrow> ('a, 'w) yielded" where
  "returnValue x = (\<lambda>w. (Inr x, w))"

definition raise :: "exn \<Rightarrow> ('a, 'w) yielded" where
  "raise e = (\<lambda>w. (Inl e, w))"

text \<open>\<open>x = yield m; k x\<close>: an exception of \<open>m\<close> propagates and skips \<open>k\<close>.\<close>

definition yield :: "('a, 'w) yielded \<Rightarrow> ('a \<Rightarrow> ('b, 'w) yielded) \<Rightarrow> ('b, 'w) yielded" where
  "yield m k = (\<lambda>w. case m w of (Inl e, w') \<Rightarrow> (Inl e, w') | (Inr x, w') \<Rightarrow> k x w')"

text \<open>\<open>try: body except StoreError: handler\<close>.\<close>

definition except_StoreError :: "('a, 'w) yielded \<Rightarrow> ('a, 'w) yielded \<Rightarrow> ('a, 'w) yielded" where
  "except_StoreError body handler =
     (\<lambda>w. case body w of
             (Inl (StoreError code msg), w') \<Rightarrow> handler w'
           | (Inl (OtherException name), w') \<Rightarrow> (Inl (OtherException name), w')
           | (Inr x, w') \<Rightarrow> (Inr x, w'))"

subsection \<open>Data\<close>

text \<open>A row of \<open>get_users_expiring_soon\<close>, a threepid, and \<open>UserID\<close>.\<close>

record expiring_user =
  user_id :: string
  expiration_ts_ms :: int

record threepid =
  medium :: string
  address :: string

record UserID =
  localpart :: string
  domain :: string

text \<open>The dictionary \<open>template_vars\<close> and a loaded template (its \<open>render\<close>).\<close>

record template_vars =
  var_display_name :: string
  var_expiration_ts :: int
  var_url :: string

type_synonym template = "template_vars \<Rightarrow> exn + string"

text \<open>
  The multipart message (headers, and the attached parts as subtype and text), and the
  arguments of one \<open>sendmail\<close> call.
\<close>

record mime_message =
  msg_subject :: string
  msg_from :: string
  msg_to :: string
  msg_date :: string
  msg_id :: string
  msg_parts :: "(string \<times> string) list"

record mail_request =
  smtp_host :: string
  mail_from :: string
  mail_to :: string
  mail_msg :: mime_message
  smtp_port :: int
  requireAuthentication :: bool
  username :: "string option"
  password :: "string option"
  requireTransportSecurity :: bool

text \<open>The options of \<open>hs.config\<close> that the handler reads.\<close>

record config =
  renew_by_email_enabled :: bool
  period :: int
  email_app_name :: string
  renew_email_subject :: string
  email_notif_from :: string
  email_expiry_template_html :: string
  email_expiry_template_text :: string
  public_baseurl :: string
  email_smtp_host :: string
  email_smtp_port :: int
  email_smtp_user :: "string option"
  email_smtp_pass :: "string option"
  require_transport_security :: bool

text \<open>
  The datastore methods the handler calls. All are called under \<open>yield\<close> but
  \<open>get_user_from_renewal_token\<close>, whose returned object \<open>renew_account\<close> passes on as
  the \<open>user\<close> argument of \<open>renew_account_for_user\<close>.
\<close>

record 'w datastore =
  get_users_expiring_soon :: "(expiring_user list, 'w) yielded"
  set_renewal_mail_status :: "string \<Rightarrow> bool \<Rightarrow> (unit, 'w) yielded"
  user_get_threepids :: "string \<Rightarrow> (threepid list, 'w) yielded"
  get_profile_displayname :: "string \<Rightarrow> (string option, 'w) yielded"
  set_renewal_token_for_user :: "string \<Rightarrow> string \<Rightarrow> (unit, 'w) yielded"
  get_user_from_renewal_token :: "string \<Rightarrow> 'w \<Rightarrow> (exn + string returned) \<times> 'w"
  renew_account_for_user :: "string returned \<Rightarrow> int \<Rightarrow> (unit, 'w) yielded"

text \<open>
  The homeserver: configuration, datastore, mail transport and clock, and the imported
  functions the handler calls (\<open>stringutils.random_string\<close>, \<open>UserID.from_string\<close>,
  \<open>email.utils.parseaddr\<close>, \<open>formatdate\<close> and \<open>make_msgid\<close>, the \<open>%\<close> operator on a
  template string and a dictionary, \<open>mailer.load_jinja2_templates\<close>).
\<close>

record 'w homeserver =
  config :: config
  datastore :: "'w datastore"
  sendmail :: "mail_request \<Rightarrow> (unit, 'w) yielded"
  time_msec :: "'w \<Rightarrow> int"
  random_string :: "nat \<Rightarrow> 'w \<Rightarrow> string \<times> 'w"
  UserID_from_string :: "string \<Rightarrow> exn + UserID"
  parseaddr :: "string \<Rightarrow> string \<times> string"
  formatdate :: "'w \<Rightarrow> string"
  make_msgid :: "'w \<Rightarrow> string \<times> 'w"
  percent_format :: "string \<Rightarrow> (string \<times> string) list \<Rightarrow> exn + string"
  load_jinja2_templates :: "config \<Rightarrow> string \<Rightarrow> string \<Rightarrow> exn + (template \<times> template)"

text \<open>
  The handler object: \<open>hs\<close>, and the attributes that the constructor sets only when
  renewal by email is enabled.
\<close>

record email_attrs =
  subject :: string
  from_string :: string
  raw_from :: string
  template_html :: template
  template_text :: template

record 'w handler =
  hs :: "'w homeserver"
  email :: "email_attrs option"

subsection \<open>The constructor\<close>

text \<open>
  The \<open>try\<close> block of the constructor: both substitutions, and on any exception of
  either the two configured strings as they are.
\<close>

definition init_subject_from :: "'w homeserver \<Rightarrow> string \<times> string" where
  "init_subject_from h =
     (let app_name = email_app_name (config h) in
      case percent_format h (renew_email_subject (config h)) [(''app'', app_name)] of
        Inl e \<Rightarrow> (renew_email_subject (config h), email_notif_from (config h))
      | Inr s \<Rightarrow>
          (case percent_format h (email_notif_from (config h)) [(''app'', app_name)] of
             Inl e \<Rightarrow> (renew_email_subject (config h), email_notif_from (config h))
           | Inr f \<Rightarrow> (s, f)))"

text \<open>
  The constructor. The registration of the 30 minute looping call is scheduling and is
  not part of the value built here.
\<close>

definition init :: "'w homeserver \<Rightarrow> exn + 'w handler" where
  "init h =
     (if renew_by_email_enabled (config h) then
        (case init_subject_from h of
           (s, f) \<Rightarrow>
             (case load_jinja2_templates h (config h)
                     (email_expiry_template_html (config h))
                     (email_expiry_template_text (config h)) of
                Inl e \<Rightarrow> Inl e
              | Inr (th, tt) \<Rightarrow>
                  Inr \<lparr>hs = h,
                       email = Some \<lparr>subject = s, from_string = f,
                                     raw_from = snd (parseaddr h f),
                                     template_html = th, template_text = tt\<rparr>\<rparr>))
      else Inr \<lparr>hs = h, email = None\<rparr>)"

subsection \<open>Token issuance\<close>

definition get_email_addresses_for_user :: "'w handler \<Rightarrow> string \<Rightarrow> (string list, 'w) yielded" where
  "get_email_addresses_for_user self user =
     yield (user_get_threepids (datastore (hs self)) user)
       (\<lambda>threepids. returnValue (map address (filter (\<lambda>t. medium t = ''email'') threepids)))"

definition refresh_string_error :: exn where
  "refresh_string_error =
     StoreError 500 ''Couldn't generate a unique string as refresh string.''"

text \<open>
  The body of the \<open>try\<close> block of \<open>_get_renewal_token\<close>: generate a string, write
  it for the user, and return it if the write raised nothing.
\<close>

definition token_attempt :: "'w handler \<Rightarrow> string \<Rightarrow> (string, 'w) yielded" where
  "token_attempt self user =
     (\<lambda>w. case random_string (hs self) 32 w of
             (renewal_token, w1) \<Rightarrow>
               (case set_renewal_token_for_user (datastore (hs self)) user renewal_token w1 of
                  (Inl e, w2) \<Rightarrow> (Inl e, w2)
                | (Inr u, w2) \<Rightarrow> (Inr renewal_token, w2)))"

text \<open>
  The \<open>while attempts < 5\<close> loop: a \<open>StoreError\<close> of the attempt counts and the loop
  goes on, any other exception leaves the loop, and after the loop the handler raises
  its own \<open>StoreError\<close>.
\<close>

function get_renewal_token_loop :: "'w handler \<Rightarrow> string \<Rightarrow> nat \<Rightarrow> (string, 'w) yielded" where
  "get_renewal_token_loop self user attempts w =
     (if attempts < 5 then
        (case token_attempt self user w of
           (Inr renewal_token, w') \<Rightarrow> (Inr renewal_token, w')
         | (Inl (StoreError code msg), w') \<Rightarrow>
             get_renewal_token_loop self user (attempts + 1) w'
         | (Inl (OtherException name), w') \<Rightarrow> (Inl (OtherException name), w'))
      else (Inl refresh_string_error, w))"
  by pat_completeness auto
termination
  by (relation "measure (\<lambda>(self, user, attempts, w). 5 - attempts)") auto

definition get_renewal_token :: "'w handler \<Rightarrow> string \<Rightarrow> (string, 'w) yielded" where
  "get_renewal_token self user = get_renewal_token_loop self user 0"

text \<open>
  Two notions for speaking about the loop: whether the attempt made in a world ends in a
  \<open>StoreError\<close> (the store's write conflict), and the world that \<open>n\<close> attempts in a
  row leave behind.
\<close>

definition write_conflicts :: "'w handler \<Rightarrow> string \<Rightarrow> 'w \<Rightarrow> bool" where
  "write_conflicts self user w =
     (case fst (token_attempt self user w) of
        Inl (StoreError code msg) \<Rightarrow> True
      | Inl (OtherException name) \<Rightarrow> False
      | Inr t \<Rightarrow> False)"

primrec after_attempts :: "'w handler \<Rightarrow> string \<Rightarrow> nat \<Rightarrow> 'w \<Rightarrow> 'w" where
  "after_attempts self user 0 w = w"
| "after_attempts self user (Suc n) w = after_attempts self user n (snd (token_attempt self user w))"

subsection \<open>Sending the renewal email\<close>

text \<open>The body of the \<open>for address in addresses\<close> loop.\<close>

definition send_to_address ::
  "'w handler \<Rightarrow> email_attrs \<Rightarrow> string \<times> string \<Rightarrow> string \<times> string \<Rightarrow> string \<Rightarrow> (unit, 'w) yielded" where
  "send_to_address self ea text_part html_part addr =
     (\<lambda>w. let raw_to = snd (parseaddr (hs self) addr);
               date = formatdate (hs self) w
           in case make_msgid (hs self) w of
                (message_id, w1) \<Rightarrow>
                  sendmail (hs self)
                    \<lparr>smtp_host = email_smtp_host (config (hs self)),
                     mail_from = raw_from ea,
                     mail_to = raw_to,
                     mail_msg = \<lparr>msg_subject = subject ea, msg_from = from_string ea,
                                 msg_to = addr, msg_date = date, msg_id = message_id,
                                 msg_parts = [text_part, html_part]\<rparr>,
                     smtp_port = email_smtp_port (config (hs self)),
                     requireAuthentication = (email_smtp_user (config (hs self)) \<noteq> None),
                     username = email_smtp_user (config (hs self)),
                     password = email_smtp_pass (config (hs self)),
                     requireTransportSecurity = require_transport_security (config (hs self))\<rparr>
                    w1)"

fun send_to_addresses ::
  "'w handler \<Rightarrow> email_attrs \<Rightarrow> string \<times> string \<Rightarrow> string \<times> string \<Rightarrow> string list \<Rightarrow> (unit, 'w) yielded" where
  "send_to_addresses self ea text_part html_part [] = returnValue ()"
| "send_to_addresses self ea text_part html_part (addr # addresses) =
     yield (send_to_address self ea text_part html_part addr)
       (\<lambda>_. send_to_addresses self ea text_part html_part addresses)"

text \<open>The \<open>try\<close> block that obtains the display name.\<close>

definition get_display_name :: "'w handler \<Rightarrow> string \<Rightarrow> (string, 'w) yielded" where
  "get_display_name self user =
     except_StoreError
       (case UserID_from_string (hs self) user of
          Inl e \<Rightarrow> raise e
        | Inr uid \<Rightarrow>
            yield (get_profile_displayname (datastore (hs self)) (localpart uid))
              (\<lambda>user_display_name.
                 returnValue (case user_display_name of None \<Rightarrow> user | Some n \<Rightarrow> n)))
       (returnValue user)"

definition renewal_url :: "'w handler \<Rightarrow> string \<Rightarrow> string" where
  "renewal_url self renewal_token =
     public_baseurl (config (hs self))
       @ ''_matrix/client/unstable/account_validity/renew?token='' @ renewal_token"

text \<open>
  The rest of \<open>send_renewal_email_to_user\<close> once the addresses and the display name
  are known: the token, the link, the two rendered parts, and the loop over the
  addresses. The templates are attributes that only a handler built with renewal by
  email enabled has.
\<close>

definition render_and_send ::
  "'w handler \<Rightarrow> string \<Rightarrow> int \<Rightarrow> string list \<Rightarrow> string \<Rightarrow> (unit, 'w) yielded" where
  "render_and_send self user expiration_ts addresses user_display_name =
     yield (get_renewal_token self user) (\<lambda>renewal_token.
       let vars = \<lparr>var_display_name = user_display_name,
                   var_expiration_ts = expiration_ts,
                   var_url = renewal_url self renewal_token\<rparr>
       in case email self of
            None \<Rightarrow> raise (OtherException ''AttributeError'')
          | Some ea \<Rightarrow>
              (case template_html ea vars of
                 Inl e \<Rightarrow> raise e
               | Inr html_text \<Rightarrow>
                   (case template_text ea vars of
                      Inl e \<Rightarrow> raise e
                    | Inr plain_text \<Rightarrow>
                        send_to_addresses self ea (''plain'', plain_text) (''html'', html_text)
                          addresses)))"

definition send_renewal_email_to_user :: "'w handler \<Rightarrow> string \<Rightarrow> int \<Rightarrow> (unit, 'w) yielded" where
  "send_renewal_email_to_user self user expiration_ts =
     yield (get_email_addresses_for_user self user) (\<lambda>addresses.
     yield (get_display_name self user) (\<lambda>user_display_name.
       render_and_send self user expiration_ts addresses user_display_name))"

subsection \<open>The scan cycle and the renewal\<close>

fun send_renewal_emails_loop :: "'w handler \<Rightarrow> expiring_user list \<Rightarrow> (unit, 'w) yielded" where
  "send_renewal_emails_loop self [] = returnValue ()"
| "send_renewal_emails_loop self (user # expiring_users) =
     yield (send_renewal_email_to_user self (user_id user) (expiration_ts_ms user))
       (\<lambda>_. yield (set_renewal_mail_status (datastore (hs self)) (user_id user) True)
         (\<lambda>_. send_renewal_emails_loop self expiring_users))"

definition send_renewal_emails :: "'w handler \<Rightarrow> (unit, 'w) yielded" where
  "send_renewal_emails self =
     yield (get_users_expiring_soon (datastore (hs self))) (send_renewal_emails_loop self)"

text \<open>
  \<open>renew_account\<close> calls \<open>get_user_from_renewal_token\<close> without \<open>yield\<close>: an
  exception raised by the call itself propagates, and otherwise \<open>user\<close> is the object
  the call returned. Then it reads the clock and, under \<open>yield\<close>, calls
  \<open>renew_account_for_user\<close> with that object.
\<close>

definition renew_account :: "'w handler \<Rightarrow> string \<Rightarrow> (unit, 'w) yielded" where
  "renew_account self renewal_token =
     (\<lambda>w. case get_user_from_renewal_token (datastore (hs self)) renewal_token w of
             (Inl e, w1) \<Rightarrow> (Inl e, w1)
           | (Inr user, w1) \<Rightarrow>
               (let new_expiration_date = time_msec (hs self) w1 + period (config (hs self))
                in renew_account_for_user (datastore (hs self)) user new_expiration_date w1))"

subsection \<open>Who writes the notified flag\<close>

text \<open>
  The handler does not hold the \<open>notified\<close> flag: the store does. For a reading \<open>flag\<close>
  of the flags out of the world, a call leaves the flags when no run of it changes the
  reading, and a homeserver has its flags set by the status write only when every
  collaborator the scan calls leaves the flags, except \<open>set_renewal_mail_status\<close>,
  which leaves the flags of all accounts but the one it is called for.
\<close>

definition leaves_flags :: "('w \<Rightarrow> 'f) \<Rightarrow> ('a, 'w) yielded \<Rightarrow> bool" where
  "leaves_flags flag m = (\<forall>w. flag (snd (m w)) = flag w)"

definition flags_set_by_status_only :: "'w homeserver \<Rightarrow> ('w \<Rightarrow> string \<Rightarrow> bool) \<Rightarrow> bool" where
  "flags_set_by_status_only h flag =
     (leaves_flags flag (get_users_expiring_soon (datastore h))
      \<and> (\<forall>u. leaves_flags flag (user_get_threepids (datastore h) u))
      \<and> (\<forall>l. leaves_flags flag (get_profile_displayname (datastore h) l))
      \<and> (\<forall>u t. leaves_flags flag (set_renewal_token_for_user (datastore h) u t))
      \<and> (\<forall>req. leaves_flags flag (sendmail h req))
      \<and> (\<forall>n w. flag (snd (random_string h n w)) = flag w)
      \<and> (\<forall>w. flag (snd (make_msgid h w)) = flag w)
      \<and> (\<forall>u b w v. v \<noteq> u \<longrightarrow>
            flag (snd (set_renewal_mail_status (datastore h) u b w)) v = flag w v))"

subsection \<open>The collaborators, modelled from the specification\<close>

text \<open>
  The datastore, the mail transport, the clock and the imported library functions are not
  part of the handler's module. The definitions of this subsection model them from the
  specification's data model (section 3) and external interfaces (section 6), as one
  world that the handler's calls read and update.
\<close>

text \<open>
  Modelled from the spec: the Account of the AccountStore (the store's table is missing),
  with its identifier, \<open>expiration_ts\<close> and \<open>notified\<close> flag, and the RenewalToken
  mapped to it, if any.
\<close>

record account =
  account_id :: string
  expiration_ts :: int
  notified :: bool
  token :: "string option"

text \<open>
  Modelled from the spec: the state behind the external collaborators (all missing): the
  accounts of the AccountStore, the threepids of the identity store, the answer of the
  profile store for a localpart (a name, no name, or a failure), the clock and the
  look-ahead window, the strings the random source will produce and how many were drawn,
  and the mail transport: the failure it reports for a recipient, if any, and the
  messages it has accepted.
\<close>

record world =
  accounts :: "account list"
  threepids_of :: "string \<Rightarrow> threepid list"
  profile_lookup :: "string \<Rightarrow> exn + string option"
  clock_now :: int
  look_ahead :: int
  random_source :: "nat \<Rightarrow> string"
  drawn :: nat
  transport_failure :: "string \<Rightarrow> exn option"
  outbox :: "mail_request list"

text \<open>
  Modelled from the spec: the errors of the missing store, \<open>UnknownToken\<close> (no account
  maps to the token) and the write conflict of \<open>createToken\<close>; the handler's retry
  loop takes a \<open>StoreError\<close> of the write as the conflict.
\<close>

definition UnknownToken :: exn where
  "UnknownToken = StoreError 404 ''UnknownToken''"

definition Conflict :: exn where
  "Conflict = StoreError 409 ''Conflict''"

text \<open>
  Modelled from the spec: \<open>findExpiringUnnotified\<close> of the missing store, the accounts
  whose \<open>expiration_ts\<close> falls within the look-ahead window and whose \<open>notified\<close> flag
  is false.
\<close>

definition findExpiringUnnotified :: "(expiring_user list, world) yielded" where
  "findExpiringUnnotified =
     (\<lambda>w. (Inr (map (\<lambda>a. \<lparr>user_id = account_id a, expiration_ts_ms = expiration_ts a\<rparr>)
                   (filter (\<lambda>a. \<not> notified a \<and> clock_now w \<le> expiration_ts a
                                  \<and> expiration_ts a \<le> clock_now w + look_ahead w)
                      (accounts w))), w))"

text \<open>Modelled from the spec: \<open>setNotified(accountId, bool)\<close> of the missing store.\<close>

definition setNotified :: "string \<Rightarrow> bool \<Rightarrow> (unit, world) yielded" where
  "setNotified u b =
     (\<lambda>w. (Inr (), w\<lparr>accounts :=
                      map (\<lambda>a. if account_id a = u then a\<lparr>notified := b\<rparr> else a) (accounts w)\<rparr>))"

text \<open>
  Modelled from the spec: \<open>setExpiration(accountId, ts)\<close> of the missing store;
  persisting the new expiration also clears the \<open>notified\<close> flag for the next cycle.
  The accounts written are those whose identifier is the object passed as the account;
  a Deferred is the identifier of none.
\<close>

definition setExpiration :: "string returned \<Rightarrow> int \<Rightarrow> (unit, world) yielded" where
  "setExpiration user ts =
     (\<lambda>w. (Inr (), w\<lparr>accounts :=
                      map (\<lambda>a. if Value (account_id a) = user
                               then a\<lparr>expiration_ts := ts, notified := False\<rparr>
                               else a) (accounts w)\<rparr>))"

text \<open>
  Modelled from the spec: \<open>getExpirationByToken(token)\<close> of the missing store, the account
  the token maps to, or the error when no account maps to it. The steps of the handler
  suspend on store I/O (section 5 of the specification; the source runs every other
  call of the store under \<open>yield\<close>), so the outcome is handed back in a Deferred.
\<close>

definition getExpirationByToken :: "string \<Rightarrow> world \<Rightarrow> (exn + string returned) \<times> world" where
  "getExpirationByToken t =
     (\<lambda>w. (Inr (Deferred (case find (\<lambda>a. token a = Some t) (accounts w) of
                             None \<Rightarrow> Inl UnknownToken
                           | Some a \<Rightarrow> Inr (account_id a))), w))"

text \<open>
  Modelled from the spec: \<open>createToken(accountId, token)\<close> of the missing store; the write
  is rejected if the token already exists for any account, and otherwise the token
  becomes the renewal token of the account.
\<close>

definition createToken :: "string \<Rightarrow> string \<Rightarrow> (unit, world) yielded" where
  "createToken u t =
     (\<lambda>w. if list_ex (\<lambda>a. token a = Some t) (accounts w) then (Inl Conflict, w)
           else (Inr (), w\<lparr>accounts :=
                   map (\<lambda>a. if account_id a = u then a\<lparr>token := Some t\<rparr> else a) (accounts w)\<rparr>))"

text \<open>
  Modelled from the spec: the contact methods of an account in the missing identity
  store, and \<open>getDisplayName\<close> of the missing profile store.
\<close>

definition listThreepids :: "string \<Rightarrow> (threepid list, world) yielded" where
  "listThreepids u = (\<lambda>w. (Inr (threepids_of w u), w))"

definition getDisplayName :: "string \<Rightarrow> (string option, world) yielded" where
  "getDisplayName l = (\<lambda>w. (case profile_lookup w l of Inl e \<Rightarrow> Inl e | Inr n \<Rightarrow> Inr n, w))"

definition spec_store :: "world datastore" where
  "spec_store =
     \<lparr>get_users_expiring_soon = findExpiringUnnotified,
      set_renewal_mail_status = setNotified,
      user_get_threepids = listThreepids,
      get_profile_displayname = getDisplayName,
      set_renewal_token_for_user = createToken,
      get_user_from_renewal_token = getExpirationByToken,
      renew_account_for_user = setExpiration\<rparr>"

text \<open>
  Modelled from the spec: the missing mail transport, which accepts a fully-formed
  message and returns success or failure per send.
\<close>

definition transport_send :: "mail_request \<Rightarrow> (unit, world) yielded" where
  "transport_send req =
     (\<lambda>w. case transport_failure w (mail_to req) of
             Some e \<Rightarrow> (Inl e, w)
           | None \<Rightarrow> (Inr (), w\<lparr>outbox := outbox w @ [req]\<rparr>))"

text \<open>
  Modelled from the spec: the missing random source of the TokenIssuer, which hands out
  the next string of the world (cut to the length asked for).
\<close>

definition next_random_string :: "nat \<Rightarrow> world \<Rightarrow> string \<times> world" where
  "next_random_string n w = (take n (random_source w (drawn w)), w\<lparr>drawn := drawn w + 1\<rparr>)"

text \<open>
  Stand-ins for the imported library functions: an identifier \<open>@localpart:domain\<close> is
  split at its first colon and anything else is refused with an error that is not a
  \<open>StoreError\<close>; an address is its own raw address; the date is the clock's reading in
  unary; a message id is drawn from the random source; the substitution replaces
  \<open>%(app)s\<close> and refuses any other percent sign; the templates render the display name
  and the link.
\<close>

definition split_user_id :: "string \<Rightarrow> exn + UserID" where
  "split_user_id s =
     (if s \<noteq> [] \<and> hd s = CHR ''@'' \<and> CHR '':'' \<in> set (tl s)
      then Inr \<lparr>localpart = takeWhile (\<lambda>c. c \<noteq> CHR '':'') (tl s),
                domain = tl (dropWhile (\<lambda>c. c \<noteq> CHR '':'') (tl s))\<rparr>
      else Inl (OtherException ''SynapseError''))"

fun substitute_app :: "string \<Rightarrow> (string \<times> string) list \<Rightarrow> exn + string" where
  "substitute_app [] d = Inr []"
| "substitute_app (c # cs) d =
     (if c \<noteq> CHR ''%'' then
        (case substitute_app cs d of Inl e \<Rightarrow> Inl e | Inr r \<Rightarrow> Inr (c # r))
      else if take 6 cs = ''(app)s'' then
        (case map_of d ''app'' of
           None \<Rightarrow> Inl (OtherException ''KeyError'')
         | Some v \<Rightarrow>
             (case substitute_app (drop 6 cs) d of Inl e \<Rightarrow> Inl e | Inr r \<Rightarrow> Inr (v @ r)))
      else Inl (OtherException ''ValueError''))"

definition html_template :: template where
  "html_template vars =
     Inr (''<a href='' @ var_url vars @ ''>'' @ var_display_name vars @ ''</a>'')"

definition text_template :: template where
  "text_template vars = Inr (var_display_name vars @ '': '' @ var_url vars)"

definition spec_hs :: "config \<Rightarrow> world homeserver" where
  "spec_hs cfg =
     \<lparr>config = cfg,
      datastore = spec_store,
      sendmail = transport_send,
      time_msec = clock_now,
      random_string = next_random_string,
      UserID_from_string = split_user_id,
      parseaddr = (\<lambda>a. ([], a)),
      formatdate = (\<lambda>w. replicate (nat (clock_now w)) CHR ''|''),
      make_msgid = (\<lambda>w. (random_source w (drawn w), w\<lparr>drawn := drawn w + 1\<rparr>)),
      percent_format = substitute_app,
      load_jinja2_templates = (\<lambda>c h t. Inr (html_template, text_template))\<rparr>"

text \<open>
  Modelled from the spec: reading the \<open>expiration_ts\<close> that the missing store holds for
  an account.
\<close>

definition stored_expiration :: "world \<Rightarrow> string \<Rightarrow> int option" where
  "stored_expiration w u = map_option expiration_ts (find (\<lambda>a. account_id a = u) (accounts w))"

text \<open>
  Modelled from the spec: reading the missing store, whether a token already exists for
  any account and whether an account's \<open>notified\<close> flag is set; and the string that the
  missing random source hands out at the \<open>i\<close>-th next draw.
\<close>

definition token_in_use :: "world \<Rightarrow> string \<Rightarrow> bool" where
  "token_in_use w t = list_ex (\<lambda>a. token a = Some t) (accounts w)"

definition is_notified :: "world \<Rightarrow> string \<Rightarrow> bool" where
  "is_notified w u = list_ex (\<lambda>a. account_id a = u \<and> notified a) (accounts w)"

definition candidate :: "world \<Rightarrow> nat \<Rightarrow> string" where
  "candidate w i = take 32 (random_source w (drawn w + i))"

subsection \<open>Example inputs\<close>

text \<open>
  A configuration whose subject template takes the application name and whose sender
  template has a stray percent sign.
\<close>

definition example_config :: config where
  "example_config =
     \<lparr>renew_by_email_enabled = True,
      period = 1000,
      email_app_name = ''Matrix'',
      renew_email_subject = ''[%(app)s] Renew your account'',
      email_notif_from = ''%(app)s 100% <noreply@example.com>'',
      email_expiry_template_html = ''notice_expiry.html'',
      email_expiry_template_text = ''notice_expiry.txt'',
      public_baseurl = ''https://example.com/'',
      email_smtp_host = ''localhost'',
      email_smtp_port = 25,
      email_smtp_user = None,
      email_smtp_pass = None,
      require_transport_security = False\<rparr>"

text \<open>
  A handler for the example configuration, as the constructor builds it.
\<close>

definition example_attrs :: email_attrs where
  "example_attrs =
     \<lparr>subject = ''[%(app)s] Renew your account'',
      from_string = ''%(app)s 100% <noreply@example.com>'',
      raw_from = ''%(app)s 100% <noreply@example.com>'',
      template_html = html_template,
      template_text = text_template\<rparr>"

definition example_handler :: "world handler" where
  "example_handler = \<lparr>hs = spec_hs example_config, email = Some example_attrs\<rparr>"

text \<open>
  A world with two accounts inside the look-ahead window: the first holds the token
  \<open>t1\<close>, has two email addresses and a phone number, and a profile; the second has no
  token, no contact method and no profile. The random source produces \<open>t1\<close> twice
  before it produces unused strings.
\<close>

definition example_world :: world where
  "example_world =
     \<lparr>accounts =
        [\<lparr>account_id = ''@a:x'', expiration_ts = 5000, notified = False, token = Some ''t1''\<rparr>,
         \<lparr>account_id = ''@b:x'', expiration_ts = 6000, notified = False, token = None\<rparr>],
      threepids_of =
        (\<lambda>u. if u = ''@a:x''
              then [\<lparr>medium = ''email'', address = ''a@x''\<rparr>,
                    \<lparr>medium = ''msisdn'', address = ''4477''\<rparr>,
                    \<lparr>medium = ''email'', address = ''a@y''\<rparr>]
              else []),
      profile_lookup =
        (\<lambda>l. if l = ''a'' then Inr (Some ''Alice'') else Inl (StoreError 404 ''No row found'')),
      clock_now = 4200,
      look_ahead = 3000,
      random_source =
        (\<lambda>i. if i < 6 then [''t1'', ''t1'', ''t2'', ''m1'', ''m2'', ''t3''] ! i else ''t4''),
      drawn = 0,
      transport_failure = (\<lambda>a. None),
      outbox = []\<rparr>"

text \<open>
  The same world with a mail transport that fails for the first address of the first
  account, with one that fails for its second address, and with a profile store whose
  lookups raise an exception that is not a \<open>StoreError\<close>.
\<close>

definition first_fails_world :: world where
  "first_fails_world =
     example_world\<lparr>transport_failure :=
       (\<lambda>a. if a = ''a@x'' then Some (OtherException ''SMTPError'') else None)\<rparr>"

definition second_fails_world :: world where
  "second_fails_world =
     example_world\<lparr>transport_failure :=
       (\<lambda>a. if a = ''a@y'' then Some (OtherException ''SMTPError'') else None)\<rparr>"


text \<open>The rows of the two accounts as the scan receives them.\<close>

definition row_a :: expiring_user where
  "row_a = \<lparr>user_id = ''@a:x'', expiration_ts_ms = 5000\<rparr>"

definition row_b :: expiring_user where
  "row_b = \<lparr>user_id = ''@b:x'', expiration_ts_ms = 6000\<rparr>"

text \<open>
  The homeserver of the specification with a store whose token write always reports a
  conflict.
\<close>

definition colliding_hs :: "config \<Rightarrow> world homeserver" where
  "colliding_hs cfg =
     (spec_hs cfg)\<lparr>datastore := spec_store\<lparr>set_renewal_token_for_user := (\<lambda>u t. raise Conflict)\<rparr>\<rparr>"

section \<open>Properties\<close>

subsection \<open>Running suspended calls\<close>

lemma returnValue_apply [simp]: "returnValue x w = (Inr x, w)"
  by (simp add: returnValue_def)

lemma raise_apply [simp]: "raise e w = (Inl e, w)"
  by (simp add: raise_def)

lemma yield_Inl: "m w = (Inl e, w') \<Longrightarrow> yield m k w = (Inl e, w')"
  by (simp add: yield_def)

lemma yield_Inr: "m w = (Inr x, w') \<Longrightarrow> yield m k w = k x w'"
  by (simp add: yield_def)

lemma yield_returnValue: "yield (returnValue x) k = k x"
  by (rule ext) (simp add: yield_def)

lemma yield_assoc: "yield (yield m f) g = yield m (\<lambda>x. yield (f x) g)"
  by (rule ext) (simp add: yield_def split: prod.splits sum.splits)

subsection \<open>Runs in the example worlds\<close>

text \<open>The definitions that a run of the handler in an example world unfolds.\<close>

lemmas run_defs =
  send_renewal_emails_def send_renewal_email_to_user_def render_and_send_def
  get_email_addresses_for_user_def get_display_name_def except_StoreError_def
  get_renewal_token_def get_renewal_token_loop.simps token_attempt_def send_to_address_def
  renewal_url_def yield_def Let_def
  spec_hs_def spec_store_def listThreepids_def getDisplayName_def createToken_def
  setNotified_def findExpiringUnnotified_def transport_send_def next_random_string_def
  split_user_id_def html_template_def text_template_def Conflict_def
  example_handler_def example_attrs_def example_config_def row_a_def row_b_def

text \<open>The example handler is the one the constructor builds from the example configuration.\<close>

lemma example_handler_built: "init (spec_hs example_config) = Inr example_handler"
  by (simp add: init_def init_subject_from_def Let_def spec_hs_def example_config_def
      example_handler_def example_attrs_def)

subsection \<open>The constructor's fallback\<close>

text \<open>
  C10. When renewal by email is enabled and the substitution of the application name
  raises for the subject template or for the sender template, the \<open>try\<close> block leaves
  both the subject and the sender string as the configured templates, unsubstituted, and
  the constructor goes on from there: it parses the raw sender address out of the bare
  sender string and loads the templates, and builds the handler unless the loading of the
  templates raises.
\<close>

theorem init_falls_back_to_bare_strings:
  assumes enabled: "renew_by_email_enabled (config h)"
    and fails: "(\<exists>e. percent_format h (renew_email_subject (config h))
                      [(''app'', email_app_name (config h))] = Inl e)
              \<or> (\<exists>e. percent_format h (email_notif_from (config h))
                      [(''app'', email_app_name (config h))] = Inl e)"
  shows "init_subject_from h = (renew_email_subject (config h), email_notif_from (config h))
    \<and> init h =
        (case load_jinja2_templates h (config h) (email_expiry_template_html (config h))
                (email_expiry_template_text (config h)) of
           Inl e \<Rightarrow> Inl e
         | Inr (th, tt) \<Rightarrow>
             Inr \<lparr>hs = h,
                  email = Some \<lparr>subject = renew_email_subject (config h),
                                from_string = email_notif_from (config h),
                                raw_from = snd (parseaddr h (email_notif_from (config h))),
                                template_html = th, template_text = tt\<rparr>\<rparr>)"
proof -
  have bare: "init_subject_from h = (renew_email_subject (config h), email_notif_from (config h))"
    using fails by (auto simp: init_subject_from_def Let_def split: sum.splits)
  show ?thesis
    using enabled by (simp add: bare init_def)
qed

text \<open>
  In the example configuration the subject substitutes and the sender string does not;
  both stay as configured.
\<close>

theorem init_falls_back_to_bare_strings_witness:
  "renew_by_email_enabled (config (spec_hs example_config))
   \<and> percent_format (spec_hs example_config) (renew_email_subject example_config)
         [(''app'', email_app_name example_config)] = Inr ''[Matrix] Renew your account''
   \<and> percent_format (spec_hs example_config) (email_notif_from example_config)
         [(''app'', email_app_name example_config)] = Inl (OtherException ''ValueError'')
   \<and> init_subject_from (spec_hs example_config) =
         (''[%(app)s] Renew your account'', ''%(app)s 100% <noreply@example.com>'')"
  using init_falls_back_to_bare_strings [of "spec_hs example_config"]
  by (simp add: spec_hs_def example_config_def)

subsection \<open>Redeeming a token\<close>

text \<open>
  What \<open>renew_account\<close> passes to \<open>renew_account_for_user\<close> as the account is the
  object the lookup returned, as it is, together with the clock's reading plus the
  configured period; an exception raised by the lookup call itself propagates.
\<close>

lemma renew_account_passes_returned_object:
  assumes "get_user_from_renewal_token (datastore (hs self)) t w = (Inr user, w1)"
  shows "renew_account self t w =
           renew_account_for_user (datastore (hs self)) user
             (time_msec (hs self) w1 + period (config (hs self))) w1"
  using assms by (simp add: renew_account_def)

lemma renew_account_lookup_raises:
  assumes "get_user_from_renewal_token (datastore (hs self)) t w = (Inl e, w1)"
  shows "renew_account self t w = (Inl e, w1)"
  using assms by (simp add: renew_account_def)

text \<open>
  The store of the specification sets the expiration of the account whose identifier it
  is given, and writes nothing when it is given a Deferred; its lookup hands back a
  Deferred. So with this store \<open>renew_account\<close> changes nothing, whatever the token.
\<close>

lemma find_map_same_id:
  assumes "\<And>a. account_id (f a) = account_id a"
  shows "find (\<lambda>a. account_id a = u) (map f xs) = map_option f (find (\<lambda>a. account_id a = u) xs)"
  using assms by (induction xs) auto

lemma find_by_id_of_member:
  "a \<in> set xs \<Longrightarrow> \<exists>b. find (\<lambda>x. account_id x = account_id a) xs = Some b \<and> account_id b = account_id a"
  by (induction xs) auto

lemma setExpiration_of_identifier:
  assumes "a \<in> set (accounts w)"
  shows "stored_expiration (snd (setExpiration (Value (account_id a)) ts w)) (account_id a) = Some ts"
proof -
  let ?f = "\<lambda>b. if Value (account_id b) = Value (account_id a)
                 then b\<lparr>expiration_ts := ts, notified := False\<rparr> else b"
  obtain b where b: "find (\<lambda>x. account_id x = account_id a) (accounts w) = Some b"
      "account_id b = account_id a"
    using assms find_by_id_of_member by blast
  have "find (\<lambda>x. account_id x = account_id a) (map ?f (accounts w))
          = map_option ?f (find (\<lambda>x. account_id x = account_id a) (accounts w))"
    by (rule find_map_same_id) simp
  then show ?thesis
    using b by (simp add: stored_expiration_def setExpiration_def)
qed

lemma setExpiration_of_Deferred: "setExpiration (Deferred r) ts w = (Inr (), w)"
  by (simp add: setExpiration_def)

lemma spec_lookup:
  "get_user_from_renewal_token (datastore (spec_hs cfg)) t w =
     (Inr (Deferred (case find (\<lambda>a. token a = Some t) (accounts w) of
                       None \<Rightarrow> Inl UnknownToken
                     | Some a \<Rightarrow> Inr (account_id a))), w)"
  by (simp add: spec_hs_def spec_store_def getExpirationByToken_def)

lemma spec_renew_account_changes_nothing:
  "hs self = spec_hs cfg \<Longrightarrow> renew_account self t w = (Inr (), w)"
  by (simp add: renew_account_passes_returned_object [where ?w1.0 = w] spec_lookup)
     (simp add: spec_hs_def spec_store_def setExpiration_of_Deferred)

text \<open>
  C1, at a failing input. In the example world the token \<open>t1\<close> maps to the first
  account, which expires at 5000; the clock reads 4200 and the period is 1000. The lookup
  hands back a Deferred that holds the account. \<open>renew_account\<close> computes 5200, as the
  claim says, but calls \<open>renew_account_for_user\<close> with the Deferred as the account, and
  the expiration stored for the account is 5000 afterwards, not 5200.
\<close>

theorem renew_account_leaves_the_expiration:
  "get_user_from_renewal_token (datastore (hs example_handler)) ''t1'' example_world
     = (Inr (Deferred (Inr ''@a:x'')), example_world)
   \<and> time_msec (hs example_handler) example_world + period (config (hs example_handler)) = 5200
   \<and> renew_account example_handler ''t1'' example_world
       = renew_account_for_user (datastore (hs example_handler)) (Deferred (Inr ''@a:x'')) 5200
           example_world
   \<and> stored_expiration example_world ''@a:x'' = Some 5000
   \<and> stored_expiration (snd (renew_account example_handler ''t1'' example_world)) ''@a:x''
       = Some 5000"
proof -
  have lookup: "get_user_from_renewal_token (datastore (hs example_handler)) ''t1'' example_world
                  = (Inr (Deferred (Inr ''@a:x'')), example_world)"
    by (simp add: example_handler_def spec_lookup) (simp add: example_world_def)
  have now: "time_msec (hs example_handler) example_world + period (config (hs example_handler))
               = 5200"
    by (simp add: example_handler_def spec_hs_def example_config_def example_world_def)
  have passed: "renew_account example_handler ''t1'' example_world
       = renew_account_for_user (datastore (hs example_handler)) (Deferred (Inr ''@a:x'')) 5200
           example_world"
    using renew_account_passes_returned_object [OF lookup] now by simp
  have same: "renew_account example_handler ''t1'' example_world = (Inr (), example_world)"
    by (rule spec_renew_account_changes_nothing [of _ example_config])
       (simp add: example_handler_def)
  have stored: "stored_expiration example_world ''@a:x'' = Some 5000"
    by (simp add: stored_expiration_def example_world_def)
  have kept: "stored_expiration (snd (renew_account example_handler ''t1'' example_world)) ''@a:x''
                = Some 5000"
    by (simp add: same stored)
  show ?thesis
    by (intro conjI lookup now passed stored kept)
qed

text \<open>
  C2, at a failing input. No account of the example world holds the token \<open>t9\<close>. The
  lookup hands back a Deferred that holds the \<open>UnknownToken\<close> failure. \<open>renew_account\<close>
  does not raise it: it goes on to call \<open>renew_account_for_user\<close> with the failed
  Deferred as the account, and returns normally. The accounts are left as they were, as
  the claim says.
\<close>

theorem renew_account_raises_no_UnknownToken:
  "\<not> token_in_use example_world ''t9''
   \<and> get_user_from_renewal_token (datastore (hs example_handler)) ''t9'' example_world
       = (Inr (Deferred (Inl UnknownToken)), example_world)
   \<and> renew_account example_handler ''t9'' example_world
       = renew_account_for_user (datastore (hs example_handler)) (Deferred (Inl UnknownToken)) 5200
           example_world
   \<and> renew_account example_handler ''t9'' example_world = (Inr (), example_world)"
proof -
  have unused: "\<not> token_in_use example_world ''t9''"
    by (simp add: token_in_use_def example_world_def)
  have lookup: "get_user_from_renewal_token (datastore (hs example_handler)) ''t9'' example_world
                  = (Inr (Deferred (Inl UnknownToken)), example_world)"
    by (simp add: example_handler_def spec_lookup) (simp add: example_world_def)
  have now: "time_msec (hs example_handler) example_world + period (config (hs example_handler))
               = 5200"
    by (simp add: example_handler_def spec_hs_def example_config_def example_world_def)
  have passed: "renew_account example_handler ''t9'' example_world
       = renew_account_for_user (datastore (hs example_handler)) (Deferred (Inl UnknownToken)) 5200
           example_world"
    using renew_account_passes_returned_object [OF lookup] now by simp
  have same: "renew_account example_handler ''t9'' example_world = (Inr (), example_world)"
    by (rule spec_renew_account_changes_nothing [of _ example_config])
       (simp add: example_handler_def)
  show ?thesis
    by (intro conjI unused lookup passed same)
qed

subsection \<open>Token issuance\<close>

declare get_renewal_token_loop.simps [simp del]

lemma loop_exhausted:
  "\<not> attempts < 5 \<Longrightarrow> get_renewal_token_loop self user attempts w = (Inl refresh_string_error, w)"
  by (simp add: get_renewal_token_loop.simps)

lemma loop_retry:
  "attempts < 5 \<Longrightarrow> write_conflicts self user w \<Longrightarrow>
   get_renewal_token_loop self user attempts w
     = get_renewal_token_loop self user (attempts + 1) (snd (token_attempt self user w))"
  by (subst get_renewal_token_loop.simps)
     (auto simp: write_conflicts_def split: prod.splits sum.splits exn.splits)

lemma loop_returns:
  "attempts < 5 \<Longrightarrow> token_attempt self user w = (Inr t, w') \<Longrightarrow>
   get_renewal_token_loop self user attempts w = (Inr t, w')"
  by (subst get_renewal_token_loop.simps) simp

lemma loop_other:
  "attempts < 5 \<Longrightarrow> token_attempt self user w = (Inl (OtherException name), w') \<Longrightarrow>
   get_renewal_token_loop self user attempts w = (Inl (OtherException name), w')"
  by (subst get_renewal_token_loop.simps) simp

lemma loop_skips_conflicts:
  "attempts + k \<le> 5 \<Longrightarrow> (\<forall>i<k. write_conflicts self user (after_attempts self user i w)) \<Longrightarrow>
   get_renewal_token_loop self user attempts w
     = get_renewal_token_loop self user (attempts + k) (after_attempts self user k w)"
proof (induction k arbitrary: attempts w)
  case 0
  then show ?case by simp
next
  case (Suc k)
  let ?w1 = "snd (token_attempt self user w)"
  have first: "write_conflicts self user w"
    using Suc.prems(2) by force
  have rest: "\<forall>i<k. write_conflicts self user (after_attempts self user i ?w1)"
  proof (intro allI impI)
    fix i assume "i < k"
    then have "write_conflicts self user (after_attempts self user (Suc i) w)"
      using Suc.prems(2) by blast
    then show "write_conflicts self user (after_attempts self user i ?w1)"
      by simp
  qed
  have "get_renewal_token_loop self user attempts w
          = get_renewal_token_loop self user (attempts + 1) ?w1"
    using Suc.prems(1) first by (intro loop_retry) simp_all
  also have "\<dots> = get_renewal_token_loop self user (attempts + 1 + k)
                    (after_attempts self user k ?w1)"
    using Suc.prems(1) rest by (intro Suc.IH) simp_all
  finally show ?case
    by simp
qed

lemma always_conflicting_store:
  assumes "\<forall>t w. \<exists>c m w'. set_renewal_token_for_user (datastore (hs self)) user t w
                              = (Inl (StoreError c m), w')"
  shows "write_conflicts self user w"
proof -
  obtain t w1 where r: "random_string (hs self) 32 w = (t, w1)"
    by (cases "random_string (hs self) 32 w")
  obtain c m w2 where "set_renewal_token_for_user (datastore (hs self)) user t w1
                         = (Inl (StoreError c m), w2)"
    using assms by blast
  then show ?thesis
    using r by (simp add: write_conflicts_def token_attempt_def)
qed

text \<open>
  C3. Token issuance makes at most five attempts, each generating one string and writing
  it. If the write of each of the five attempts ends in a \<open>StoreError\<close>, and so in
  particular if the store reports a conflict for every write, issuance raises the
  handler's \<open>StoreError\<close> 500 to its caller, in the world that exactly five attempts
  leave behind. If the first attempt that does not conflict is attempt \<open>k < 5\<close> and its
  write succeeds, issuance returns the string that this write persisted, in the world the
  write left. An exception of an attempt that is not a \<open>StoreError\<close> leaves the loop at
  once.
\<close>

theorem token_issuance_bounded:
  "((\<forall>i<5. write_conflicts self user (after_attempts self user i w))
      \<longrightarrow> get_renewal_token self user w
            = (Inl refresh_string_error, after_attempts self user 5 w))
   \<and> ((\<forall>t w. \<exists>c m w'. set_renewal_token_for_user (datastore (hs self)) user t w
                         = (Inl (StoreError c m), w'))
      \<longrightarrow> get_renewal_token self user w
            = (Inl refresh_string_error, after_attempts self user 5 w))
   \<and> (\<forall>k t w1 w2.
         k < 5 \<and> (\<forall>i<k. write_conflicts self user (after_attempts self user i w))
         \<and> random_string (hs self) 32 (after_attempts self user k w) = (t, w1)
         \<and> set_renewal_token_for_user (datastore (hs self)) user t w1 = (Inr (), w2)
      \<longrightarrow> get_renewal_token self user w = (Inr t, w2))
   \<and> (\<forall>k name w'.
         k < 5 \<and> (\<forall>i<k. write_conflicts self user (after_attempts self user i w))
         \<and> token_attempt self user (after_attempts self user k w) = (Inl (OtherException name), w')
      \<longrightarrow> get_renewal_token self user w = (Inl (OtherException name), w'))"
proof (intro conjI impI allI)
  assume all: "\<forall>i<5. write_conflicts self user (after_attempts self user i w)"
  have "get_renewal_token_loop self user 0 w
          = get_renewal_token_loop self user (0 + 5) (after_attempts self user 5 w)"
    using all by (intro loop_skips_conflicts) simp_all
  then show "get_renewal_token self user w
               = (Inl refresh_string_error, after_attempts self user 5 w)"
    by (simp add: get_renewal_token_def loop_exhausted)
next
  assume "\<forall>t w. \<exists>c m w'. set_renewal_token_for_user (datastore (hs self)) user t w
                           = (Inl (StoreError c m), w')"
  then have all: "\<forall>i<5. write_conflicts self user (after_attempts self user i w)"
    by (simp add: always_conflicting_store)
  have "get_renewal_token_loop self user 0 w
          = get_renewal_token_loop self user (0 + 5) (after_attempts self user 5 w)"
    using all by (intro loop_skips_conflicts) simp_all
  then show "get_renewal_token self user w
               = (Inl refresh_string_error, after_attempts self user 5 w)"
    by (simp add: get_renewal_token_def loop_exhausted)
next
  fix k t w1 w2
  assume a: "k < 5 \<and> (\<forall>i<k. write_conflicts self user (after_attempts self user i w))
         \<and> random_string (hs self) 32 (after_attempts self user k w) = (t, w1)
         \<and> set_renewal_token_for_user (datastore (hs self)) user t w1 = (Inr (), w2)"
  then have att: "token_attempt self user (after_attempts self user k w) = (Inr t, w2)"
    by (simp add: token_attempt_def)
  have "get_renewal_token_loop self user 0 w
          = get_renewal_token_loop self user (0 + k) (after_attempts self user k w)"
    using a by (intro loop_skips_conflicts) simp_all
  then show "get_renewal_token self user w = (Inr t, w2)"
    using a att by (simp add: get_renewal_token_def loop_returns)
next
  fix k name w'
  assume a: "k < 5 \<and> (\<forall>i<k. write_conflicts self user (after_attempts self user i w))
         \<and> token_attempt self user (after_attempts self user k w) = (Inl (OtherException name), w')"
  have "get_renewal_token_loop self user 0 w
          = get_renewal_token_loop self user (0 + k) (after_attempts self user k w)"
    using a by (intro loop_skips_conflicts) simp_all
  then show "get_renewal_token self user w = (Inl (OtherException name), w')"
    using a by (simp add: get_renewal_token_def loop_other)
qed

text \<open>
  With the store that always conflicts, five strings are drawn and the error is raised;
  in the example world the first two strings are taken and the third is persisted.
\<close>

lemma colliding_attempt:
  "hs self = colliding_hs cfg \<Longrightarrow>
   token_attempt self user w = (Inl Conflict, w\<lparr>drawn := drawn w + 1\<rparr>)"
  by (simp add: token_attempt_def colliding_hs_def spec_hs_def next_random_string_def)

lemma colliding_after:
  "hs self = colliding_hs cfg \<Longrightarrow> after_attempts self user n w = w\<lparr>drawn := drawn w + n\<rparr>"
  by (induction n arbitrary: w) (simp_all add: colliding_attempt)

theorem token_issuance_bounded_witness:
  "(\<forall>t w. \<exists>c m w'. set_renewal_token_for_user (datastore (colliding_hs example_config)) ''@b:x'' t w
                      = (Inl (StoreError c m), w'))
   \<and> get_renewal_token \<lparr>hs = colliding_hs example_config, email = None\<rparr> ''@b:x'' example_world
       = (Inl refresh_string_error, example_world\<lparr>drawn := 5\<rparr>)
   \<and> write_conflicts example_handler ''@b:x''
         (after_attempts example_handler ''@b:x'' 0 example_world)
   \<and> write_conflicts example_handler ''@b:x''
         (after_attempts example_handler ''@b:x'' 1 example_world)
   \<and> get_renewal_token example_handler ''@b:x'' example_world
       = (Inr ''t2'',
          example_world\<lparr>drawn := 3,
            accounts :=
              [\<lparr>account_id = ''@a:x'', expiration_ts = 5000, notified = False, token = Some ''t1''\<rparr>,
               \<lparr>account_id = ''@b:x'', expiration_ts = 6000, notified = False, token = Some ''t2''\<rparr>]\<rparr>)"
proof -
  let ?c = "\<lparr>hs = colliding_hs example_config, email = None\<rparr>"
  let ?s = "example_handler"
  let ?w3 = "example_world\<lparr>drawn := 3\<rparr>"
  let ?w4 = "example_world\<lparr>drawn := 3,
            accounts :=
              [\<lparr>account_id = ''@a:x'', expiration_ts = 5000, notified = False, token = Some ''t1''\<rparr>,
               \<lparr>account_id = ''@b:x'', expiration_ts = 6000, notified = False, token = Some ''t2''\<rparr>]\<rparr>"
  have always: "\<forall>t w. \<exists>c m w'. set_renewal_token_for_user (datastore (hs ?c)) ''@b:x'' t w
                      = (Inl (StoreError c m), w')"
    by (simp add: colliding_hs_def spec_hs_def Conflict_def)
  note exhaust = token_issuance_bounded [of ?c "''@b:x''" example_world,
      THEN conjunct2, THEN conjunct1, THEN mp]
  have "get_renewal_token ?c ''@b:x'' example_world
          = (Inl refresh_string_error, after_attempts ?c ''@b:x'' 5 example_world)"
    using always by (rule exhaust)
  moreover have "after_attempts ?c ''@b:x'' 5 example_world = example_world\<lparr>drawn := 5\<rparr>"
    by (simp add: colliding_after example_world_def)
  ultimately have exhausted: "get_renewal_token ?c ''@b:x'' example_world
          = (Inl refresh_string_error, example_world\<lparr>drawn := 5\<rparr>)"
    by simp
  have two: "(2::nat) = Suc (Suc 0)"
    by simp
  have a1: "token_attempt ?s ''@b:x'' example_world = (Inl Conflict, example_world\<lparr>drawn := Suc 0\<rparr>)"
    by (simp add: example_handler_def token_attempt_def spec_hs_def spec_store_def createToken_def
        next_random_string_def example_world_def)
  have a2: "token_attempt ?s ''@b:x'' (example_world\<lparr>drawn := Suc 0\<rparr>)
              = (Inl Conflict, example_world\<lparr>drawn := Suc (Suc 0)\<rparr>)"
    by (simp add: example_handler_def token_attempt_def spec_hs_def spec_store_def createToken_def
        next_random_string_def example_world_def)
  have after2: "after_attempts ?s ''@b:x'' 2 example_world = example_world\<lparr>drawn := 2\<rparr>"
    unfolding two by (simp add: a1 a2)
  have conflicts: "\<forall>i<2. write_conflicts ?s ''@b:x'' (after_attempts ?s ''@b:x'' i example_world)"
    unfolding two by (simp add: All_less_Suc write_conflicts_def a1 a2 Conflict_def)
  have draw: "random_string (hs ?s) 32 (after_attempts ?s ''@b:x'' 2 example_world) = (''t2'', ?w3)"
    unfolding after2
    by (simp add: example_handler_def spec_hs_def next_random_string_def example_world_def)
  have stored: "set_renewal_token_for_user (datastore (hs ?s)) ''@b:x'' ''t2'' ?w3 = (Inr (), ?w4)"
    by (simp add: example_handler_def spec_hs_def spec_store_def createToken_def example_world_def)
  note success = token_issuance_bounded [of ?s "''@b:x''" example_world,
      THEN conjunct2, THEN conjunct2, THEN conjunct1, THEN spec [where x = 2],
      THEN spec [where x = "''t2''"], THEN spec [where x = ?w3], THEN spec [where x = ?w4],
      THEN mp]
  have issued: "get_renewal_token ?s ''@b:x'' example_world = (Inr ''t2'', ?w4)"
    using conflicts draw stored by (intro success) simp
  show ?thesis
    using always exhausted conflicts issued by (simp add: two All_less_Suc)
qed

subsection \<open>A failure in the scan\<close>

text \<open>
  The claim C4 as stated fails. Both accounts are candidates of the scan. When the
  transport fails for the first address of the first account, the scan raises that
  failure and the second account is left as it was, without token and flag, although
  processing it in the world the scan left succeeds.
\<close>

theorem one_failed_account_ends_scan:
  "fst (get_users_expiring_soon (datastore (hs example_handler)) first_fails_world)
     = Inr [row_a, row_b]
   \<and> fst (send_renewal_emails example_handler first_fails_world)
       = Inl (OtherException ''SMTPError'')
   \<and> accounts (snd (send_renewal_emails example_handler first_fails_world))
       = [\<lparr>account_id = ''@a:x'', expiration_ts = 5000, notified = False, token = Some ''t2''\<rparr>,
          \<lparr>account_id = ''@b:x'', expiration_ts = 6000, notified = False, token = None\<rparr>]
   \<and> fst (send_renewal_emails_loop example_handler [row_b]
             (snd (send_renewal_emails example_handler first_fails_world))) = Inr ()"
  by (simp add: run_defs first_fails_world_def example_world_def)

lemma send_renewal_emails_loop_append:
  "send_renewal_emails_loop self (xs @ ys) =
     yield (send_renewal_emails_loop self xs) (\<lambda>_. send_renewal_emails_loop self ys)"
  by (induction xs) (simp_all add: yield_returnValue yield_assoc del: returnValue_apply)

text \<open>
  C4 (amended). The candidates of a scan cycle are processed in order, and a failure
  while processing one of them (in sending its renewal email or in setting its flag)
  is not caught: once the candidates before it have been processed, the failure ends
  the cycle in the world it left and is raised to the caller of the cycle, whatever
  candidates remain.
\<close>

theorem scan_stops_at_first_failure:
  assumes processed: "send_renewal_emails_loop self processed w = (Inr (), w1)"
    and fails: "yield (send_renewal_email_to_user self (user_id x) (expiration_ts_ms x))
                  (\<lambda>_. set_renewal_mail_status (datastore (hs self)) (user_id x) True) w1
                = (Inl e, w2)"
  shows "send_renewal_emails_loop self (processed @ x # rest) w = (Inl e, w2)"
proof -
  have "send_renewal_emails_loop self (x # rest) w1
          = yield (yield (send_renewal_email_to_user self (user_id x) (expiration_ts_ms x))
                     (\<lambda>_. set_renewal_mail_status (datastore (hs self)) (user_id x) True))
              (\<lambda>_. send_renewal_emails_loop self rest) w1"
    by (simp add: yield_assoc)
  also have "\<dots> = (Inl e, w2)"
    using fails by (rule yield_Inl)
  finally show ?thesis
    using processed by (simp add: send_renewal_emails_loop_append yield_Inr)
qed

text \<open>
  A scan over the second account, the first and the second again: the second is
  processed, the dispatch of the first fails, and the scan ends there.
\<close>

theorem scan_stops_at_first_failure_witness:
  "send_renewal_emails_loop example_handler [row_b] first_fails_world
     = (Inr (), snd (send_renewal_emails_loop example_handler [row_b] first_fails_world))
   \<and> send_renewal_email_to_user example_handler (user_id row_a) (expiration_ts_ms row_a)
         (snd (send_renewal_emails_loop example_handler [row_b] first_fails_world))
       = (Inl (OtherException ''SMTPError''),
          snd (send_renewal_emails_loop example_handler [row_b, row_a] first_fails_world))
   \<and> send_renewal_emails_loop example_handler ([row_b] @ row_a # [row_b]) first_fails_world
       = (Inl (OtherException ''SMTPError''),
          snd (send_renewal_emails_loop example_handler [row_b, row_a] first_fails_world))"
proof -
  let ?w1 = "snd (send_renewal_emails_loop example_handler [row_b] first_fails_world)"
  let ?w2 = "snd (send_renewal_emails_loop example_handler [row_b, row_a] first_fails_world)"
  have processed: "send_renewal_emails_loop example_handler [row_b] first_fails_world = (Inr (), ?w1)"
    by (simp add: run_defs first_fails_world_def example_world_def)
  have dispatch: "send_renewal_email_to_user example_handler (user_id row_a) (expiration_ts_ms row_a)
                 ?w1 = (Inl (OtherException ''SMTPError''), ?w2)"
    by (simp add: run_defs first_fails_world_def example_world_def)
  then have fails: "yield (send_renewal_email_to_user example_handler (user_id row_a)
                            (expiration_ts_ms row_a))
                  (\<lambda>_. set_renewal_mail_status (datastore (hs example_handler)) (user_id row_a) True)
                  ?w1 = (Inl (OtherException ''SMTPError''), ?w2)"
    by (rule yield_Inl)
  show ?thesis
    using scan_stops_at_first_failure [OF processed fails, of "[row_b]"] processed dispatch
    by simp
qed

subsection \<open>A failure of the mail transport\<close>

text \<open>
  The claim C5 as stated fails. The first account has the addresses \<open>a@x\<close> and \<open>a@y\<close>.
  When the transport fails for \<open>a@x\<close> only, the dispatch raises and nothing reaches
  the transport, although it would have accepted the message for \<open>a@y\<close>. When the
  transport fails for \<open>a@y\<close> only, the message for \<open>a@x\<close> is accepted and the
  dispatch still reports the failure.
\<close>

theorem one_failed_address_fails_dispatch:
  "fst (get_email_addresses_for_user example_handler ''@a:x'' first_fails_world)
     = Inr [''a@x'', ''a@y'']
   \<and> transport_failure first_fails_world ''a@y'' = None
   \<and> fst (send_renewal_email_to_user example_handler ''@a:x'' 5000 first_fails_world)
       = Inl (OtherException ''SMTPError'')
   \<and> map mail_to (outbox (snd (send_renewal_email_to_user example_handler ''@a:x'' 5000
                                  first_fails_world))) = []
   \<and> fst (send_renewal_email_to_user example_handler ''@a:x'' 5000 second_fails_world)
       = Inl (OtherException ''SMTPError'')
   \<and> map mail_to (outbox (snd (send_renewal_email_to_user example_handler ''@a:x'' 5000
                                  second_fails_world))) = [''a@x'']"
  by (simp add: run_defs first_fails_world_def second_fails_world_def example_world_def)

lemma send_to_addresses_append:
  "send_to_addresses self ea tp hp (xs @ ys) =
     yield (send_to_addresses self ea tp hp xs) (\<lambda>_. send_to_addresses self ea tp hp ys)"
  by (induction xs) (simp_all add: yield_returnValue yield_assoc del: returnValue_apply)

text \<open>
  C5 (amended). The addresses of an account are sent to in order, and a failure of the
  mail transport for one address is not caught: once the addresses before it have been
  sent to, the failure ends the loop in the world the failed send left, so that no
  later address is attempted, and the dispatch reports that failure, whatever the
  other addresses would have done.
\<close>

theorem dispatch_stops_at_first_failure:
  assumes sent: "send_to_addresses self ea text_part html_part sent w = (Inr (), w1)"
    and fails: "send_to_address self ea text_part html_part addr w1 = (Inl e, w2)"
  shows "send_to_addresses self ea text_part html_part (sent @ addr # rest) w = (Inl e, w2)"
proof -
  have "send_to_addresses self ea text_part html_part (addr # rest) w1 = (Inl e, w2)"
    using fails by (simp add: yield_Inl)
  then show ?thesis
    using sent by (simp add: send_to_addresses_append yield_Inr)
qed

text \<open>
  With a transport that fails for \<open>a@y\<close>, the loop over \<open>a@x\<close>, \<open>a@y\<close> and \<open>a@z\<close>
  ends at \<open>a@y\<close>.
\<close>

theorem dispatch_stops_at_first_failure_witness:
  "send_to_addresses example_handler example_attrs (''plain'', ''p'') (''html'', ''h'') [''a@x'']
       second_fails_world
     = (Inr (), snd (send_to_addresses example_handler example_attrs (''plain'', ''p'')
                       (''html'', ''h'') [''a@x''] second_fails_world))
   \<and> send_to_address example_handler example_attrs (''plain'', ''p'') (''html'', ''h'') ''a@y''
         (snd (send_to_addresses example_handler example_attrs (''plain'', ''p'')
                (''html'', ''h'') [''a@x''] second_fails_world))
       = (Inl (OtherException ''SMTPError''), second_fails_world\<lparr>drawn := 2,
            outbox := outbox (snd (send_to_addresses example_handler example_attrs
                         (''plain'', ''p'') (''html'', ''h'') [''a@x''] second_fails_world))\<rparr>)
   \<and> send_to_addresses example_handler example_attrs (''plain'', ''p'') (''html'', ''h'')
         ([''a@x''] @ ''a@y'' # [''a@z'']) second_fails_world
       = (Inl (OtherException ''SMTPError''), second_fails_world\<lparr>drawn := 2,
            outbox := outbox (snd (send_to_addresses example_handler example_attrs
                         (''plain'', ''p'') (''html'', ''h'') [''a@x''] second_fails_world))\<rparr>)"
proof -
  let ?w1 = "snd (send_to_addresses example_handler example_attrs (''plain'', ''p'')
                       (''html'', ''h'') [''a@x''] second_fails_world)"
  let ?w2 = "second_fails_world\<lparr>drawn := 2, outbox := outbox ?w1\<rparr>"
  have sent: "send_to_addresses example_handler example_attrs (''plain'', ''p'') (''html'', ''h'')
                [''a@x''] second_fails_world = (Inr (), ?w1)"
    by (simp add: run_defs second_fails_world_def example_world_def)
  have fails: "send_to_address example_handler example_attrs (''plain'', ''p'') (''html'', ''h'')
                 ''a@y'' ?w1 = (Inl (OtherException ''SMTPError''), ?w2)"
    by (simp add: run_defs second_fails_world_def example_world_def)
  show ?thesis
    using dispatch_stops_at_first_failure [OF sent fails, of "[''a@z'']"] sent fails
    by simp
qed

subsection \<open>The notified flag\<close>

lemma leaves_flagsD: "leaves_flags flag m \<Longrightarrow> flag (snd (m w)) = flag w"
  by (simp add: leaves_flags_def)

lemma leaves_returnValue: "leaves_flags flag (returnValue x)"
  by (simp add: leaves_flags_def)

lemma leaves_raise: "leaves_flags flag (raise e)"
  by (simp add: leaves_flags_def)

lemma leaves_yield:
  assumes "leaves_flags flag m" and "\<And>x. leaves_flags flag (k x)"
  shows "leaves_flags flag (yield m k)"
  unfolding leaves_flags_def
proof
  fix w
  obtain r w1 where m: "m w = (r, w1)"
    by (cases "m w")
  have w1: "flag w1 = flag w"
    using leaves_flagsD [OF assms(1), of w] m by simp
  show "flag (snd (yield m k w)) = flag w"
  proof (cases r)
    case (Inl e)
    then show ?thesis using m w1 by (simp add: yield_def)
  next
    case (Inr x)
    then show ?thesis
      using m w1 leaves_flagsD [OF assms(2), of x w1] by (simp add: yield_def)
  qed
qed

lemma leaves_except:
  assumes "leaves_flags flag body" and "leaves_flags flag handler"
  shows "leaves_flags flag (except_StoreError body handler)"
  unfolding leaves_flags_def
proof
  fix w
  obtain r w1 where b: "body w = (r, w1)"
    by (cases "body w")
  have w1: "flag w1 = flag w"
    using leaves_flagsD [OF assms(1), of w] b by simp
  show "flag (snd (except_StoreError body handler w)) = flag w"
    using b w1 leaves_flagsD [OF assms(2), of w1]
    by (simp add: except_StoreError_def split: sum.splits exn.splits)
qed

lemma leaves_addresses:
  "flags_set_by_status_only (hs self) flag \<Longrightarrow>
   leaves_flags flag (get_email_addresses_for_user self user)"
  unfolding get_email_addresses_for_user_def
  by (intro leaves_yield leaves_returnValue) (simp add: flags_set_by_status_only_def)

lemma leaves_display_name:
  "flags_set_by_status_only (hs self) flag \<Longrightarrow> leaves_flags flag (get_display_name self user)"
  unfolding get_display_name_def
  by (intro leaves_except leaves_returnValue)
     (auto simp: flags_set_by_status_only_def split: sum.splits
           intro!: leaves_yield leaves_returnValue leaves_raise)

lemma leaves_token_attempt:
  assumes "flags_set_by_status_only (hs self) flag"
  shows "flag (snd (token_attempt self user w)) = flag w"
proof -
  obtain t w1 where r: "random_string (hs self) 32 w = (t, w1)"
    by (cases "random_string (hs self) 32 w")
  have "flag (snd (random_string (hs self) 32 w)) = flag w"
    using assms by (simp add: flags_set_by_status_only_def)
  then have w1: "flag w1 = flag w"
    using r by simp
  obtain r2 w2 where s: "set_renewal_token_for_user (datastore (hs self)) user t w1 = (r2, w2)"
    by (cases "set_renewal_token_for_user (datastore (hs self)) user t w1")
  have "flag (snd (set_renewal_token_for_user (datastore (hs self)) user t w1)) = flag w1"
    using assms by (simp add: flags_set_by_status_only_def leaves_flags_def)
  then have "flag w2 = flag w"
    using s w1 by simp
  then show ?thesis
    using r s by (cases r2) (simp_all add: token_attempt_def)
qed

lemma leaves_token_loop:
  assumes frame: "flags_set_by_status_only (hs self) flag"
  shows "flag (snd (get_renewal_token_loop self user attempts w)) = flag w"
proof (induction "5 - attempts" arbitrary: attempts w)
  case 0
  then show ?case by (simp add: loop_exhausted)
next
  case (Suc n)
  then have less: "attempts < 5"
    by simp
  obtain r w1 where a: "token_attempt self user w = (r, w1)"
    by (cases "token_attempt self user w")
  have w1: "flag w1 = flag w"
    using leaves_token_attempt [OF frame, of user w] a by simp
  show ?case
  proof (cases r)
    case (Inr t)
    then show ?thesis using less a w1 by (simp add: loop_returns)
  next
    case (Inl e)
    show ?thesis
    proof (cases e)
      case (OtherException name)
      then show ?thesis using less a w1 Inl by (simp add: loop_other)
    next
      case (StoreError code msg)
      have "flag (snd (get_renewal_token_loop self user (attempts + 1) w1)) = flag w1"
        using Suc.hyps(2) by (intro Suc.hyps(1)) simp
      moreover have "get_renewal_token_loop self user attempts w
                       = get_renewal_token_loop self user (attempts + 1) w1"
        using less a Inl StoreError
        by (subst get_renewal_token_loop.simps) simp
      ultimately show ?thesis using w1 by simp
    qed
  qed
qed

lemma leaves_token:
  "flags_set_by_status_only (hs self) flag \<Longrightarrow> leaves_flags flag (get_renewal_token self user)"
  by (simp add: leaves_flags_def get_renewal_token_def leaves_token_loop)

lemma leaves_send_to_address:
  assumes "flags_set_by_status_only (hs self) flag"
  shows "leaves_flags flag (send_to_address self ea text_part html_part addr)"
  unfolding leaves_flags_def
proof
  fix w
  obtain i w1 where m: "make_msgid (hs self) w = (i, w1)"
    by (cases "make_msgid (hs self) w")
  have "flag (snd (make_msgid (hs self) w)) = flag w"
    using assms by (simp add: flags_set_by_status_only_def)
  then have w1: "flag w1 = flag w"
    using m by simp
  have "\<And>req. flag (snd (sendmail (hs self) req w1)) = flag w1"
    using assms by (simp add: flags_set_by_status_only_def leaves_flags_def)
  then show "flag (snd (send_to_address self ea text_part html_part addr w)) = flag w"
    using m w1 by (simp add: send_to_address_def Let_def)
qed

lemma leaves_send_to_addresses:
  "flags_set_by_status_only (hs self) flag \<Longrightarrow>
   leaves_flags flag (send_to_addresses self ea text_part html_part addresses)"
  by (induction addresses)
     (auto intro!: leaves_yield leaves_returnValue leaves_send_to_address)

lemma leaves_render_and_send:
  "flags_set_by_status_only (hs self) flag \<Longrightarrow>
   leaves_flags flag (render_and_send self user ts addresses name)"
  unfolding render_and_send_def Let_def
  by (intro leaves_yield leaves_token)
     (auto split: option.splits sum.splits intro!: leaves_raise leaves_send_to_addresses)

lemma leaves_dispatch:
  "flags_set_by_status_only (hs self) flag \<Longrightarrow>
   leaves_flags flag (send_renewal_email_to_user self user ts)"
  unfolding send_renewal_email_to_user_def
  by (intro leaves_yield leaves_addresses leaves_display_name leaves_render_and_send)

lemma flag_set_in_loop:
  assumes frame: "flags_set_by_status_only (hs self) flag"
  shows "send_renewal_emails_loop self users w = (r, w') \<Longrightarrow> \<not> flag w u \<Longrightarrow> flag w' u \<Longrightarrow>
    \<exists>processed x rest w1 w2.
        users = processed @ x # rest \<and> user_id x = u
      \<and> send_renewal_emails_loop self processed w = (Inr (), w1)
      \<and> send_renewal_email_to_user self u (expiration_ts_ms x) w1 = (Inr (), w2)
      \<and> \<not> flag w2 u
      \<and> flag (snd (set_renewal_mail_status (datastore (hs self)) u True w2)) u"
proof (induction users arbitrary: w)
  case Nil
  then show ?case by simp
next
  case (Cons x0 users)
  obtain ra wa where d: "send_renewal_email_to_user self (user_id x0) (expiration_ts_ms x0) w = (ra, wa)"
    by (cases "send_renewal_email_to_user self (user_id x0) (expiration_ts_ms x0) w")
  have wa: "flag wa = flag w"
    using leaves_flagsD [OF leaves_dispatch [OF frame], of "user_id x0" "expiration_ts_ms x0" w] d
    by simp
  show ?case
  proof (cases ra)
    case (Inl e)
    then have "w' = wa"
      using Cons.prems(1) d by (simp add: yield_def)
    then show ?thesis
      using Cons.prems(2,3) wa by simp
  next
    case (Inr unit)
    obtain rb wb where s: "set_renewal_mail_status (datastore (hs self)) (user_id x0) True wa = (rb, wb)"
      by (cases "set_renewal_mail_status (datastore (hs self)) (user_id x0) True wa")
    show ?thesis
    proof (cases "flag wb u")
      case True
      have "user_id x0 = u"
      proof (rule ccontr)
        assume "user_id x0 \<noteq> u"
        then have "flag (snd (set_renewal_mail_status (datastore (hs self)) (user_id x0) True wa)) u
                     = flag wa u"
          using frame by (simp add: flags_set_by_status_only_def)
        then show False
          using True s wa Cons.prems(2) by simp
      qed
      then have "x0 # users = [] @ x0 # users \<and> user_id x0 = u
          \<and> send_renewal_emails_loop self [] w = (Inr (), w)
          \<and> send_renewal_email_to_user self u (expiration_ts_ms x0) w = (Inr (), wa)
          \<and> \<not> flag wa u
          \<and> flag (snd (set_renewal_mail_status (datastore (hs self)) u True wa)) u"
        using d Inr True s wa Cons.prems(2) by simp
      then show ?thesis by blast
    next
      case False
      show ?thesis
      proof (cases rb)
        case (Inl e)
        then have "w' = wb"
          using Cons.prems(1) d Inr s by (simp add: yield_def)
        then show ?thesis
          using Cons.prems(3) False by simp
      next
        case (Inr unit')
        have rest: "send_renewal_emails_loop self users wb = (r, w')"
          using Cons.prems(1) d \<open>ra = Inr unit\<close> s Inr by (simp add: yield_def)
        obtain processed x rest w1 w2 where
          IH: "users = processed @ x # rest" "user_id x = u"
            "send_renewal_emails_loop self processed wb = (Inr (), w1)"
            "send_renewal_email_to_user self u (expiration_ts_ms x) w1 = (Inr (), w2)"
            "\<not> flag w2 u"
            "flag (snd (set_renewal_mail_status (datastore (hs self)) u True w2)) u"
          using Cons.IH [OF rest False Cons.prems(3)] by blast
        have "send_renewal_emails_loop self (x0 # processed) w = (Inr (), w1)"
          using d \<open>ra = Inr unit\<close> s Inr IH(3) by (simp add: yield_def)
        then have "x0 # users = (x0 # processed) @ x # rest \<and> user_id x = u
          \<and> send_renewal_emails_loop self (x0 # processed) w = (Inr (), w1)
          \<and> send_renewal_email_to_user self u (expiration_ts_ms x) w1 = (Inr (), w2)
          \<and> \<not> flag w2 u
          \<and> flag (snd (set_renewal_mail_status (datastore (hs self)) u True w2)) u"
          using IH by simp
        then show ?thesis by blast
      qed
    qed
  qed
qed

text \<open>
  C6. Let the flags of the world be set by the status write only. If the \<open>notified\<close>
  flag of an account is not set before a scan cycle and is set after it, then the cycle
  reached a candidate row of that account with every earlier candidate processed without
  failure, the dispatch of the renewal email for that row returned normally, the flag
  was still not set in the world this dispatch left, and the status write that the
  cycle runs next, in that world, set it. A cycle in which no dispatch for the account
  succeeds leaves its flag as it was.
\<close>

theorem flag_set_only_after_successful_dispatch:
  assumes frame: "flags_set_by_status_only (hs self) flag"
    and run: "send_renewal_emails self w = (r, w')"
    and before: "\<not> flag w u"
    and after: "flag w' u"
  shows "\<exists>users w0 processed x rest w1 w2.
        get_users_expiring_soon (datastore (hs self)) w = (Inr users, w0)
      \<and> users = processed @ x # rest \<and> user_id x = u
      \<and> send_renewal_emails_loop self processed w0 = (Inr (), w1)
      \<and> send_renewal_email_to_user self u (expiration_ts_ms x) w1 = (Inr (), w2)
      \<and> \<not> flag w2 u
      \<and> flag (snd (set_renewal_mail_status (datastore (hs self)) u True w2)) u"
proof -
  obtain r0 w0 where g: "get_users_expiring_soon (datastore (hs self)) w = (r0, w0)"
    by (cases "get_users_expiring_soon (datastore (hs self)) w")
  have "flag (snd (get_users_expiring_soon (datastore (hs self)) w)) = flag w"
    using frame by (simp add: flags_set_by_status_only_def leaves_flags_def)
  then have w0: "flag w0 = flag w"
    using g by simp
  show ?thesis
  proof (cases r0)
    case (Inl e)
    then have "w' = w0"
      using run g by (simp add: send_renewal_emails_def yield_def)
    then show ?thesis
      using before after w0 by simp
  next
    case (Inr users)
    then have loop: "send_renewal_emails_loop self users w0 = (r, w')"
      using run g by (simp add: send_renewal_emails_def yield_def)
    have "\<not> flag w0 u"
      using before w0 by simp
    from flag_set_in_loop [OF frame loop this after] show ?thesis
      using g Inr by blast
  qed
qed

text \<open>
  The homeserver of the specification has its flags set by the status write only, and in
  the example world the scan sets the flag of the first account.
\<close>

lemma is_notified_map:
  assumes "\<And>a. account_id (f a) = account_id a" and "\<And>a. account_id a = v \<Longrightarrow> notified (f a) = notified a"
  shows "list_ex (\<lambda>a. account_id a = v \<and> notified a) (map f xs)
           = list_ex (\<lambda>a. account_id a = v \<and> notified a) xs"
  using assms by (induction xs) auto

lemma spec_frame: "flags_set_by_status_only (spec_hs cfg) is_notified"
  unfolding flags_set_by_status_only_def leaves_flags_def
  by (auto simp: spec_hs_def spec_store_def findExpiringUnnotified_def listThreepids_def
        getDisplayName_def createToken_def transport_send_def next_random_string_def
        setNotified_def is_notified_def fun_eq_iff is_notified_map
        split: option.splits)

theorem flag_set_only_after_successful_dispatch_witness:
  "flags_set_by_status_only (hs example_handler) is_notified
   \<and> \<not> is_notified example_world ''@a:x''
   \<and> is_notified (snd (send_renewal_emails example_handler example_world)) ''@a:x''
   \<and> (\<exists>users w0 processed x rest w1 w2.
        get_users_expiring_soon (datastore (hs example_handler)) example_world = (Inr users, w0)
      \<and> users = processed @ x # rest \<and> user_id x = ''@a:x''
      \<and> send_renewal_emails_loop example_handler processed w0 = (Inr (), w1)
      \<and> send_renewal_email_to_user example_handler ''@a:x'' (expiration_ts_ms x) w1 = (Inr (), w2)
      \<and> \<not> is_notified w2 ''@a:x''
      \<and> is_notified (snd (set_renewal_mail_status (datastore (hs example_handler)) ''@a:x''
                             True w2)) ''@a:x'')"
proof -
  have frame: "flags_set_by_status_only (hs example_handler) is_notified"
    by (simp add: example_handler_def spec_frame)
  have run: "send_renewal_emails example_handler example_world
               = (fst (send_renewal_emails example_handler example_world),
                  snd (send_renewal_emails example_handler example_world))"
    by simp
  have before: "\<not> is_notified example_world ''@a:x''"
    by (simp add: is_notified_def example_world_def)
  have after: "is_notified (snd (send_renewal_emails example_handler example_world)) ''@a:x''"
    by (simp add: is_notified_def run_defs example_world_def)
  note found = flag_set_only_after_successful_dispatch
    [where flag = is_notified and self = example_handler and w = example_world
       and u = "''@a:x''", OF frame run before after]
  show ?thesis
    by (intro conjI frame before after found)
qed

subsection \<open>The display name\<close>




subsection \<open>Accounts without an email address\<close>

text \<open>
  C8. The loop over an empty list of addresses calls nothing and returns normally. So
  when an account resolves to no email address, and the display name, the token and the
  two renderings are obtained, \<open>send_renewal_email_to_user\<close> returns normally in the
  very world that the token issuance left: nothing is handed to the mail transport.
\<close>

theorem no_addresses_nothing_sent:
  assumes addrs: "get_email_addresses_for_user self user w = (Inr [], w1)"
    and name: "get_display_name self user w1 = (Inr user_display_name, w2)"
    and issued: "get_renewal_token self user w2 = (Inr renewal_token, w3)"
    and attrs: "email self = Some ea"
    and html: "template_html ea \<lparr>var_display_name = user_display_name,
                  var_expiration_ts = ts,
                  var_url = renewal_url self renewal_token\<rparr> = Inr html_text"
    and plain: "template_text ea \<lparr>var_display_name = user_display_name,
                  var_expiration_ts = ts,
                  var_url = renewal_url self renewal_token\<rparr> = Inr plain_text"
  shows "send_to_addresses self ea (''plain'', plain_text) (''html'', html_text) [] w3 = (Inr (), w3)
    \<and> send_renewal_email_to_user self user ts w = (Inr (), w3)"
proof -
  have "render_and_send self user ts [] user_display_name w2 = (Inr (), w3)"
    using issued attrs html plain
    by (simp add: render_and_send_def yield_Inr Let_def)
  then show ?thesis
    using addrs name by (simp add: send_renewal_email_to_user_def yield_Inr)
qed

text \<open>
  The second account has no contact method: its processing issues the token \<open>t2\<close>
  and hands nothing to the transport.
\<close>

theorem no_addresses_nothing_sent_witness:
  "get_email_addresses_for_user example_handler ''@b:x'' example_world = (Inr [], example_world)
   \<and> send_renewal_email_to_user example_handler ''@b:x'' 6000 example_world
       = (Inr (),
          example_world\<lparr>drawn := 3,
            accounts :=
              [\<lparr>account_id = ''@a:x'', expiration_ts = 5000, notified = False, token = Some ''t1''\<rparr>,
               \<lparr>account_id = ''@b:x'', expiration_ts = 6000, notified = False, token = Some ''t2''\<rparr>]\<rparr>)
   \<and> outbox (snd (send_renewal_email_to_user example_handler ''@b:x'' 6000 example_world)) = []"
proof -
  let ?w3 = "example_world\<lparr>drawn := 3,
            accounts :=
              [\<lparr>account_id = ''@a:x'', expiration_ts = 5000, notified = False, token = Some ''t1''\<rparr>,
               \<lparr>account_id = ''@b:x'', expiration_ts = 6000, notified = False, token = Some ''t2''\<rparr>]\<rparr>"
  let ?vars = "\<lparr>var_display_name = ''@b:x'', var_expiration_ts = 6000,
                 var_url = renewal_url example_handler ''t2''\<rparr>"
  have addrs: "get_email_addresses_for_user example_handler ''@b:x'' example_world
                 = (Inr [], example_world)"
    by (simp add: run_defs example_world_def)
  have name: "get_display_name example_handler ''@b:x'' example_world = (Inr ''@b:x'', example_world)"
    by (simp add: run_defs example_world_def)
  have issued: "get_renewal_token example_handler ''@b:x'' example_world = (Inr ''t2'', ?w3)"
    by (simp add: run_defs example_world_def)
  have attrs: "email example_handler = Some example_attrs"
    by (simp add: example_handler_def)
  have html: "template_html example_attrs ?vars = Inr (''<a href='' @ var_url ?vars @ ''>@b:x</a>'')"
    by (simp add: example_attrs_def html_template_def)
  have plain: "template_text example_attrs ?vars = Inr (''@b:x: '' @ var_url ?vars)"
    by (simp add: example_attrs_def text_template_def)
  show ?thesis
    using no_addresses_nothing_sent [OF addrs name issued attrs html plain] addrs
    by (simp add: example_world_def)
qed

subsection \<open>An account without an email address in the scan\<close>

lemma spec_token_attempt:
  assumes "hs self = spec_hs cfg"
  shows "token_attempt self u w =
           (if token_in_use w (candidate w 0) then (Inl Conflict, w\<lparr>drawn := drawn w + 1\<rparr>)
            else (Inr (candidate w 0),
                  w\<lparr>drawn := drawn w + 1,
                    accounts := map (\<lambda>a. if account_id a = u then a\<lparr>token := Some (candidate w 0)\<rparr>
                                         else a) (accounts w)\<rparr>))"
  by (simp add: token_attempt_def assms spec_hs_def spec_store_def createToken_def
      next_random_string_def token_in_use_def candidate_def)

lemma spec_after_conflicts:
  assumes "hs self = spec_hs cfg"
  shows "(\<forall>i<k. token_in_use w (candidate w i)) \<Longrightarrow>
         after_attempts self u k w = w\<lparr>drawn := drawn w + k\<rparr>"
proof (induction k arbitrary: w)
  case 0
  then show ?case by simp
next
  case (Suc k)
  let ?w1 = "w\<lparr>drawn := drawn w + 1\<rparr>"
  have first: "token_in_use w (candidate w 0)"
    using Suc.prems by blast
  have step: "snd (token_attempt self u w) = ?w1"
    using first by (simp add: spec_token_attempt [OF assms])
  have "\<forall>i<k. token_in_use ?w1 (candidate ?w1 i)"
  proof (intro allI impI)
    fix i assume "i < k"
    then have "token_in_use w (candidate w (Suc i))"
      using Suc.prems by blast
    then show "token_in_use ?w1 (candidate ?w1 i)"
      by (simp add: token_in_use_def candidate_def)
  qed
  then have "after_attempts self u k ?w1 = ?w1\<lparr>drawn := drawn ?w1 + k\<rparr>"
    by (rule Suc.IH)
  then show ?case
    by (simp add: step)
qed

lemma spec_conflicts:
  assumes h: "hs self = spec_hs cfg"
    and used: "\<forall>i<k. token_in_use w (candidate w i)"
  shows "\<forall>i<k. write_conflicts self u (after_attempts self u i w)"
proof (intro allI impI)
  fix i assume i: "i < k"
  then have "\<forall>j<i. token_in_use w (candidate w j)"
    using used by simp
  then have at: "after_attempts self u i w = w\<lparr>drawn := drawn w + i\<rparr>"
    by (rule spec_after_conflicts [OF h])
  have "token_in_use w (candidate w i)"
    using used i by blast
  then have "token_in_use (w\<lparr>drawn := drawn w + i\<rparr>) (candidate (w\<lparr>drawn := drawn w + i\<rparr>) 0)"
    by (simp add: token_in_use_def candidate_def)
  then show "write_conflicts self u (after_attempts self u i w)"
    by (simp add: at write_conflicts_def spec_token_attempt [OF h] Conflict_def)
qed

lemma spec_get_renewal_token:
  assumes h: "hs self = spec_hs cfg"
    and k: "k < 5"
    and used: "\<forall>i<k. token_in_use w (candidate w i)"
    and free: "\<not> token_in_use w (candidate w k)"
  shows "get_renewal_token self u w =
           (Inr (candidate w k),
            w\<lparr>drawn := drawn w + (k + 1),
              accounts := map (\<lambda>a. if account_id a = u then a\<lparr>token := Some (candidate w k)\<rparr>
                                   else a) (accounts w)\<rparr>)"
proof -
  let ?wk = "w\<lparr>drawn := drawn w + k\<rparr>"
  have at: "after_attempts self u k w = ?wk"
    using used by (rule spec_after_conflicts [OF h])
  have skip: "get_renewal_token_loop self u 0 w
                = get_renewal_token_loop self u (0 + k) (after_attempts self u k w)"
    using k spec_conflicts [OF h used] by (intro loop_skips_conflicts) simp_all
  have "\<not> token_in_use ?wk (candidate ?wk 0)"
    using free by (simp add: token_in_use_def candidate_def)
  then have "token_attempt self u ?wk =
           (Inr (candidate w k),
            w\<lparr>drawn := drawn w + (k + 1),
              accounts := map (\<lambda>a. if account_id a = u then a\<lparr>token := Some (candidate w k)\<rparr>
                                   else a) (accounts w)\<rparr>)"
    by (simp add: spec_token_attempt [OF h] candidate_def)
  then show ?thesis
    using k by (simp add: get_renewal_token_def skip at loop_returns)
qed

text \<open>
  C9. With the store of the specification, take a candidate of the scan that has no
  threepid of medium \<open>email\<close>, whose identifier parses, whose profile lookup raises
  nothing but a \<open>StoreError\<close>, and for which one of the next five strings of the random
  source is not in use as a token (the string number \<open>k\<close> being the first such), with
  templates that render. Then the scan processes the candidate without failure and goes
  on with the remaining candidates in a world that differs from the one it found only
  in the draws made and in the account of the candidate: this account now holds the new
  token and has its \<open>notified\<close> flag set. The outbox of the transport is as it was.
\<close>

theorem account_without_addresses_is_still_processed:
  assumes h: "hs self = spec_hs cfg"
    and attrs: "email self = Some ea"
    and renders: "\<forall>vars. (\<exists>s. template_html ea vars = Inr s) \<and> (\<exists>s. template_text ea vars = Inr s)"
    and no_email: "\<forall>t \<in> set (threepids_of w (user_id x)). medium t \<noteq> ''email''"
    and wellformed: "split_user_id (user_id x) = Inr uid"
    and lookup: "\<forall>name. profile_lookup w (localpart uid) \<noteq> Inl (OtherException name)"
    and k: "k < 5"
    and used: "\<forall>i<k. token_in_use w (candidate w i)"
    and free: "\<not> token_in_use w (candidate w k)"
  shows "send_renewal_emails_loop self (x # rest) w =
           send_renewal_emails_loop self rest
             (w\<lparr>drawn := drawn w + (k + 1),
                accounts := map (\<lambda>a. if account_id a = user_id x
                                     then a\<lparr>token := Some (candidate w k), notified := True\<rparr>
                                     else a) (accounts w)\<rparr>)"
proof -
  let ?u = "user_id x"
  let ?w3 = "w\<lparr>drawn := drawn w + (k + 1),
              accounts := map (\<lambda>a. if account_id a = ?u then a\<lparr>token := Some (candidate w k)\<rparr>
                                   else a) (accounts w)\<rparr>"
  have "filter (\<lambda>t. medium t = ''email'') (threepids_of w ?u) = []"
    using no_email by (simp add: filter_empty_conv)
  then have addrs: "get_email_addresses_for_user self ?u w = (Inr [], w)"
    by (simp add: get_email_addresses_for_user_def h spec_hs_def spec_store_def
        listThreepids_def yield_def)
  have "\<exists>n. get_display_name self ?u w = (Inr n, w)"
    using wellformed lookup
    by (cases "profile_lookup w (localpart uid)")
       (auto simp: get_display_name_def except_StoreError_def h spec_hs_def spec_store_def
          getDisplayName_def yield_def split: exn.splits option.splits)
  then obtain n where name: "get_display_name self ?u w = (Inr n, w)"
    by blast
  have issued: "get_renewal_token self ?u w = (Inr (candidate w k), ?w3)"
    using k used free by (rule spec_get_renewal_token [OF h])
  let ?vars = "\<lparr>var_display_name = n, var_expiration_ts = expiration_ts_ms x,
                 var_url = renewal_url self (candidate w k)\<rparr>"
  obtain html_text plain_text where
    html: "template_html ea ?vars = Inr html_text" and plain: "template_text ea ?vars = Inr plain_text"
    using renders by blast
  have "render_and_send self ?u (expiration_ts_ms x) [] n w = (Inr (), ?w3)"
    using issued attrs html plain by (simp add: render_and_send_def yield_Inr Let_def)
  then have dispatch: "send_renewal_email_to_user self ?u (expiration_ts_ms x) w = (Inr (), ?w3)"
    using addrs name by (simp add: send_renewal_email_to_user_def yield_Inr)
  have "map (\<lambda>a. if account_id a = ?u then a\<lparr>notified := True\<rparr> else a)
          (map (\<lambda>a. if account_id a = ?u then a\<lparr>token := Some (candidate w k)\<rparr> else a) (accounts w))
        = map (\<lambda>a. if account_id a = ?u then a\<lparr>token := Some (candidate w k), notified := True\<rparr>
                    else a) (accounts w)"
    by simp
  then have status: "set_renewal_mail_status (datastore (hs self)) ?u True ?w3
          = (Inr (), w\<lparr>drawn := drawn w + (k + 1),
                accounts := map (\<lambda>a. if account_id a = ?u
                                     then a\<lparr>token := Some (candidate w k), notified := True\<rparr>
                                     else a) (accounts w)\<rparr>)"
    by (simp add: h spec_hs_def spec_store_def setNotified_def)
  show ?thesis
    using dispatch status by (simp add: yield_Inr)
qed

text \<open>
  The second account of the example world is such a candidate: the third string drawn
  becomes its token and its flag is set.
\<close>

theorem account_without_addresses_is_still_processed_witness:
  "threepids_of example_world (user_id row_b) = []
   \<and> split_user_id (user_id row_b) = Inr \<lparr>localpart = ''b'', domain = ''x''\<rparr>
   \<and> profile_lookup example_world ''b'' = Inl (StoreError 404 ''No row found'')
   \<and> token_in_use example_world (candidate example_world 0)
   \<and> token_in_use example_world (candidate example_world 1)
   \<and> \<not> token_in_use example_world (candidate example_world 2)
   \<and> send_renewal_emails_loop example_handler [row_b] example_world
       = (Inr (),
          example_world\<lparr>drawn := 3,
            accounts :=
              [\<lparr>account_id = ''@a:x'', expiration_ts = 5000, notified = False, token = Some ''t1''\<rparr>,
               \<lparr>account_id = ''@b:x'', expiration_ts = 6000, notified = True, token = Some ''t2''\<rparr>]\<rparr>)"
proof -
  have h: "hs example_handler = spec_hs example_config"
    and attrs: "email example_handler = Some example_attrs"
    by (simp_all add: example_handler_def)
  have renders: "\<forall>vars. (\<exists>s. template_html example_attrs vars = Inr s)
                     \<and> (\<exists>s. template_text example_attrs vars = Inr s)"
    by (simp add: example_attrs_def html_template_def text_template_def)
  have none: "threepids_of example_world (user_id row_b) = []"
    by (simp add: example_world_def row_b_def)
  then have no_email: "\<forall>t \<in> set (threepids_of example_world (user_id row_b)). medium t \<noteq> ''email''"
    by simp
  have wellformed: "split_user_id (user_id row_b) = Inr \<lparr>localpart = ''b'', domain = ''x''\<rparr>"
    by (simp add: split_user_id_def row_b_def)
  have profile: "profile_lookup example_world ''b'' = Inl (StoreError 404 ''No row found'')"
    by (simp add: example_world_def)
  then have lookup: "\<forall>name. profile_lookup example_world
                       (localpart \<lparr>localpart = ''b'', domain = ''x''\<rparr>) \<noteq> Inl (OtherException name)"
    by simp
  have two: "(2::nat) = Suc (Suc 0)"
    by simp
  have c0: "token_in_use example_world (candidate example_world 0)"
    and c1: "token_in_use example_world (candidate example_world 1)"
    and free: "\<not> token_in_use example_world (candidate example_world 2)"
    by (simp_all add: token_in_use_def candidate_def example_world_def)
  have used: "\<forall>i<2. token_in_use example_world (candidate example_world i)"
    using c0 c1 by (simp add: two All_less_Suc)
  have k: "(2::nat) < 5"
    by simp
  note processed = account_without_addresses_is_still_processed
    [where self = example_handler and cfg = example_config and ea = example_attrs
       and w = example_world and x = row_b and k = 2 and rest = "[]",
     OF h attrs renders no_email wellformed lookup k used free]
  have "send_renewal_emails_loop example_handler [row_b] example_world
       = (Inr (),
          example_world\<lparr>drawn := 3,
            accounts :=
              [\<lparr>account_id = ''@a:x'', expiration_ts = 5000, notified = False, token = Some ''t1''\<rparr>,
               \<lparr>account_id = ''@b:x'', expiration_ts = 6000, notified = True, token = Some ''t2''\<rparr>]\<rparr>)"
    unfolding processed by (simp add: candidate_def example_world_def row_b_def)
  then show ?thesis
    using none wellformed profile c0 c1 free by simp
qed

end
